theory Spec2Isabelle
  imports Complex_Main
begin

section \<open>JavaScript numbers\<close>

text \<open>
  The retirement calculator of \<^verbatim>\<open>task-2/src/App.js\<close> computes with JavaScript
  numbers. A number is modelled as a finite real or one of the three special values of
  IEEE arithmetic. In the operations of this section finite values are exact reals: the
  rounding of binary64 and its overflow are left out, and the two zeros are one value,
  taken as the positive one. What is modelled in full is where an operation leaves the
  reals: a division by zero, an undefined form such as \<open>0 / 0\<close> or \<open>\<infinity> - \<infinity>\<close>, and
  the propagation of NaN. Rounding is added in the section on the monthly income, whose
  properties depend on it.
\<close>

datatype num = Fin real | PInf | NInf | NaN

fun js_neg :: "num \<Rightarrow> num" where
  "js_neg (Fin x) = Fin (- x)"
| "js_neg PInf = NInf"
| "js_neg NInf = PInf"
| "js_neg NaN = NaN"

fun js_add :: "num \<Rightarrow> num \<Rightarrow> num" where
  "js_add NaN _ = NaN"
| "js_add _ NaN = NaN"
| "js_add (Fin x) (Fin y) = Fin (x + y)"
| "js_add PInf NInf = NaN"
| "js_add NInf PInf = NaN"
| "js_add PInf _ = PInf"
| "js_add NInf _ = NInf"
| "js_add (Fin _) PInf = PInf"
| "js_add (Fin _) NInf = NInf"

definition js_sub :: "num \<Rightarrow> num \<Rightarrow> num" where
  "js_sub a b = js_add a (js_neg b)"

text \<open>The sign of a product or quotient with an infinite operand.\<close>

definition signed_inf :: "bool \<Rightarrow> num" where
  "signed_inf positive = (if positive then PInf else NInf)"

fun js_mul :: "num \<Rightarrow> num \<Rightarrow> num" where
  "js_mul NaN _ = NaN"
| "js_mul _ NaN = NaN"
| "js_mul (Fin x) (Fin y) = Fin (x * y)"
| "js_mul (Fin x) PInf = (if x = 0 then NaN else signed_inf (0 < x))"
| "js_mul (Fin x) NInf = (if x = 0 then NaN else signed_inf (x < 0))"
| "js_mul PInf (Fin y) = (if y = 0 then NaN else signed_inf (0 < y))"
| "js_mul NInf (Fin y) = (if y = 0 then NaN else signed_inf (y < 0))"
| "js_mul PInf PInf = PInf"
| "js_mul PInf NInf = NInf"
| "js_mul NInf PInf = NInf"
| "js_mul NInf NInf = PInf"

text \<open>
  Division: a finite divisor that is zero gives NaN for a zero dividend and an infinity
  for any other one; nothing is raised.
\<close>

fun js_div :: "num \<Rightarrow> num \<Rightarrow> num" where
  "js_div NaN _ = NaN"
| "js_div _ NaN = NaN"
| "js_div (Fin x) (Fin y) =
     (if y = 0 then (if x = 0 then NaN else signed_inf (0 < x)) else Fin (x / y))"
| "js_div (Fin _) PInf = Fin 0"
| "js_div (Fin _) NInf = Fin 0"
| "js_div PInf (Fin y) = signed_inf (0 \<le> y)"
| "js_div NInf (Fin y) = signed_inf (y < 0)"
| "js_div PInf PInf = NaN"
| "js_div PInf NInf = NaN"
| "js_div NInf PInf = NaN"
| "js_div NInf NInf = NaN"

text \<open>Comparisons: every comparison with NaN is false.\<close>

fun js_lt :: "num \<Rightarrow> num \<Rightarrow> bool" where
  "js_lt NaN _ = False"
| "js_lt _ NaN = False"
| "js_lt (Fin x) (Fin y) = (x < y)"
| "js_lt (Fin _) PInf = True"
| "js_lt (Fin _) NInf = False"
| "js_lt PInf _ = False"
| "js_lt NInf NInf = False"
| "js_lt NInf _ = True"

definition js_gt :: "num \<Rightarrow> num \<Rightarrow> bool" where
  "js_gt a b = js_lt b a"

text \<open>\<^verbatim>\<open>!x\<close> on a number: true for zero and for NaN.\<close>

fun js_not :: "num \<Rightarrow> bool" where
  "js_not (Fin x) = (x = 0)"
| "js_not NaN = True"
| "js_not PInf = False"
| "js_not NInf = False"

text \<open>\<^verbatim>\<open>Math.max\<close> and \<^verbatim>\<open>Math.min\<close> of two numbers: NaN if either is NaN.\<close>

fun Math_max :: "num \<Rightarrow> num \<Rightarrow> num" where
  "Math_max NaN _ = NaN"
| "Math_max _ NaN = NaN"
| "Math_max a b = (if js_lt a b then b else a)"

fun Math_min :: "num \<Rightarrow> num \<Rightarrow> num" where
  "Math_min NaN _ = NaN"
| "Math_min _ NaN = NaN"
| "Math_min a b = (if js_lt b a then b else a)"

text \<open>\<^verbatim>\<open>Math.round\<close>: the nearest integer, a half rounding up.\<close>

fun Math_round :: "num \<Rightarrow> num" where
  "Math_round (Fin x) = Fin (of_int \<lfloor>x + 1 / 2\<rfloor>)"
| "Math_round v = v"

text \<open>
  \<^verbatim>\<open>Math.pow\<close>. For finite operands: an exponent of zero gives 1; an integral
  exponent is a repeated product or quotient; a positive base has a real power; a zero
  base gives zero or infinity; a negative base with a fractional exponent gives NaN.
\<close>

definition is_integral :: "real \<Rightarrow> bool" where
  "is_integral y = (of_int \<lfloor>y\<rfloor> = y)"

definition pow_fin :: "real \<Rightarrow> real \<Rightarrow> num" where
  "pow_fin x y =
     (if y = 0 then Fin 1
      else if x = 0 then (if 0 < y then Fin 0 else PInf)
      else if is_integral y then Fin (x powi \<lfloor>y\<rfloor>)
      else if 0 < x then Fin (x powr y)
      else NaN)"

fun Math_pow :: "num \<Rightarrow> num \<Rightarrow> num" where
  "Math_pow _ NaN = NaN"
| "Math_pow b (Fin y) =
     (if y = 0 then Fin 1
      else case b of
        NaN \<Rightarrow> NaN
      | PInf \<Rightarrow> (if 0 < y then PInf else Fin 0)
      | NInf \<Rightarrow> (if 0 < y then (if is_integral y \<and> odd \<lfloor>y\<rfloor> then NInf else PInf) else Fin 0)
      | Fin x \<Rightarrow> pow_fin x y)"
| "Math_pow NaN PInf = NaN"
| "Math_pow NaN NInf = NaN"
| "Math_pow (Fin x) PInf = (if 1 < \<bar>x\<bar> then PInf else if \<bar>x\<bar> = 1 then NaN else Fin 0)"
| "Math_pow (Fin x) NInf = (if 1 < \<bar>x\<bar> then Fin 0 else if \<bar>x\<bar> = 1 then NaN else PInf)"
| "Math_pow PInf PInf = PInf"
| "Math_pow NInf PInf = PInf"
| "Math_pow PInf NInf = Fin 0"
| "Math_pow NInf NInf = Fin 0"

section \<open>The projection engine\<close>

subsection \<open>Future value\<close>

text \<open>
  \<^verbatim>\<open>calculateFutureValue(principal, monthlyContrib, annualRate, years)\<close>, lines 30 to 43.
  The quotient of the contribution term is \<^verbatim>\<open>(monthlyContrib * (pow - 1)) / monthlyRate\<close>:
  the source has no branch for a monthly rate of zero. The parameter \<^verbatim>\<open>principal\<close>
  is written \<open>princ\<close>, the longer name being a constant of the library.
\<close>

definition calculateFutureValue :: "num \<Rightarrow> num \<Rightarrow> num \<Rightarrow> num \<Rightarrow> num" where
  "calculateFutureValue princ monthlyContrib annualRate years =
     (let r = js_div annualRate (Fin 100);
          n = Fin 12;
          t = years;
          fvPrincipal = js_mul princ (Math_pow (js_add (Fin 1) (js_div r n)) (js_mul n t));
          monthlyRate = js_div r n;
          fvContributions =
            js_div (js_mul monthlyContrib
                      (js_sub (Math_pow (js_add (Fin 1) monthlyRate) (js_mul n t)) (Fin 1)))
                   monthlyRate
      in js_add fvPrincipal fvContributions)"

subsection \<open>Monthly income\<close>

text \<open>\<^verbatim>\<open>calculateMonthlyIncome(retirementBalance)\<close>, lines 53 to 63.\<close>

definition calculateMonthlyIncome :: "num \<Rightarrow> num" where
  "calculateMonthlyIncome retirementBalance =
     (let annualRate = Fin (4 / 100);
          monthlyRate = js_div annualRate (Fin 12);
          totalPayments = js_mul (Fin 20) (Fin 12)
      in js_div
           (js_mul retirementBalance
              (js_mul monthlyRate (Math_pow (js_add (Fin 1) monthlyRate) totalPayments)))
           (js_sub (Math_pow (js_add (Fin 1) monthlyRate) totalPayments) (Fin 1)))"

subsection \<open>Validation\<close>

record Inputs =
  currentBalance :: num
  monthlyContribution :: num
  expectedReturn :: num
  yearsToRetirement :: num

text \<open>
  \<^verbatim>\<open>validateInputs(inputValues)\<close>, lines 83 to 103. The error object is an
  association list from field name to message, in the order the source assigns the
  properties; each of the four \<^verbatim>\<open>if\<close> statements runs whatever the others did.
\<close>

definition validateInputs :: "Inputs \<Rightarrow> (string \<times> string) list" where
  "validateInputs inputValues =
     (if js_not (currentBalance inputValues) \<or> js_lt (currentBalance inputValues) (Fin 0)
      then [(''currentBalance'', ''Current balance must be a positive number'')] else [])
   @ (if js_lt (monthlyContribution inputValues) (Fin 0)
      then [(''monthlyContribution'', ''Monthly contribution cannot be negative'')] else [])
   @ (if js_not (expectedReturn inputValues) \<or> js_lt (expectedReturn inputValues) (Fin (- 20))
          \<or> js_gt (expectedReturn inputValues) (Fin 50)
      then [(''expectedReturn'', ''Expected return should be between -20% and 50%'')] else [])
   @ (if js_not (yearsToRetirement inputValues) \<or> js_lt (yearsToRetirement inputValues) (Fin 1)
          \<or> js_gt (yearsToRetirement inputValues) (Fin 70)
      then [(''yearsToRetirement'', ''Years to retirement should be between 1 and 70'')] else [])"

subsection \<open>Scenarios and chart series\<close>

record BaseResult =
  projected_value :: num
  monthly_income :: num

text \<open>
  A scenario object is built without \<^verbatim>\<open>monthlyIncome\<close>; the \<^verbatim>\<open>forEach\<close> of
  lines 157 to 159 adds the property.
\<close>

record Scenario =
  name :: string
  rate :: num
  projectedValue :: num
  color :: string
  monthlyIncome :: "num option"

text \<open>
  A chart point holds the year and one property per scenario name, kept in the order the
  inner \<^verbatim>\<open>forEach\<close> assigns them.
\<close>

record DataPoint =
  year :: nat
  balances :: "(string \<times> num) list"

text \<open>The component's state: the four \<^verbatim>\<open>useState\<close> cells and the inputs.\<close>

record AppState =
  inputs :: Inputs
  results :: "BaseResult option"
  scenarios :: "Scenario list"
  chartData :: "DataPoint list"
  errors :: "(string \<times> string) list"

text \<open>
  The body of the loop of lines 167 to 174: the point of one year, with the rounded
  balance of every scenario at that elapsed year.
\<close>

definition chart_point :: "num \<Rightarrow> num \<Rightarrow> Scenario list \<Rightarrow> nat \<Rightarrow> DataPoint" where
  "chart_point cb mc scenarioData yr =
     \<lparr>year = yr,
      balances = map (\<lambda>scenario.
        (name scenario,
         Math_round (calculateFutureValue cb mc (rate scenario) (Fin (real yr)))))
        scenarioData\<rparr>"

text \<open>
  The loop itself, \<^verbatim>\<open>for (let year = 0; year <= chartYears; year++)\<close>, for a finite
  bound.
\<close>

function chart_loop :: "num \<Rightarrow> num \<Rightarrow> Scenario list \<Rightarrow> real \<Rightarrow> nat \<Rightarrow> DataPoint list" where
  "chart_loop cb mc scenarioData chartYears yr =
     (if real yr \<le> chartYears
      then chart_point cb mc scenarioData yr # chart_loop cb mc scenarioData chartYears (Suc yr)
      else [])"
  by pat_completeness auto
termination
proof (relation "measure (\<lambda>(cb, mc, scenarioData, chartYears, yr). nat \<lfloor>chartYears\<rfloor> + 1 - yr)",
    goal_cases)
  case 1
  show ?case by simp
next
  case (2 cb mc scenarioData chartYears yr)
  then have "int yr \<le> \<lfloor>chartYears\<rfloor>"
    by (simp add: le_floor_iff)
  then have "yr \<le> nat \<lfloor>chartYears\<rfloor>"
    by linarith
  then show ?case
    by simp
qed

declare chart_loop.simps [simp del]

text \<open>
  \<^verbatim>\<open>calculateResults()\<close>, lines 108 to 177, as a function from the state before the
  call to the state after it. The loop condition is false from the start when
  \<^verbatim>\<open>chartYears\<close> is NaN or \<open>-\<infinity>\<close>; \<^verbatim>\<open>Math.min(yearsToRetirement, 40)\<close> is never
  \<open>+\<infinity>\<close> (lemma \<open>Math_min_40_not_PInf\<close>), the one bound under which the loop
  would not end.
\<close>

definition calculateResults :: "AppState \<Rightarrow> AppState" where
  "calculateResults s =
     (let validationErrors = validateInputs (inputs s);
          s1 = s\<lparr>errors := validationErrors\<rparr>
      in if length validationErrors > 0
         then s1\<lparr>results := None, scenarios := [], chartData := []\<rparr>
         else
           let cb = currentBalance (inputs s);
               mc = monthlyContribution (inputs s);
               er = expectedReturn (inputs s);
               yrs = yearsToRetirement (inputs s);
               pv = calculateFutureValue cb mc er yrs;
               mi = calculateMonthlyIncome pv;
               baseResult =
                 \<lparr>projected_value = js_div (Math_round (js_mul pv (Fin 100))) (Fin 100),
                  monthly_income = js_div (Math_round (js_mul mi (Fin 100))) (Fin 100)\<rparr>;
               conservativeRate = Math_max (js_sub er (Fin 2)) (Fin 1);
               optimisticRate = js_add er (Fin 2);
               scenarioData0 =
                 [\<lparr>name = ''Conservative'', rate = conservativeRate,
                   projectedValue = calculateFutureValue cb mc conservativeRate yrs,
                   color = ''#ef4444'', monthlyIncome = None\<rparr>,
                  \<lparr>name = ''Base Case'', rate = er,
                   projectedValue = pv,
                   color = ''#3b82f6'', monthlyIncome = None\<rparr>,
                  \<lparr>name = ''Optimistic'', rate = optimisticRate,
                   projectedValue = calculateFutureValue cb mc optimisticRate yrs,
                   color = ''#10b981'', monthlyIncome = None\<rparr>];
               scenarioData =
                 map (\<lambda>scenario. scenario\<lparr>monthlyIncome :=
                        Some (calculateMonthlyIncome (projectedValue scenario))\<rparr>)
                   scenarioData0;
               chartYears = Math_min yrs (Fin 40);
               data = (case chartYears of
                         Fin c \<Rightarrow> chart_loop cb mc scenarioData c 0
                       | _ \<Rightarrow> [])
           in s1\<lparr>results := Some baseResult, scenarios := scenarioData, chartData := data\<rparr>)"

subsection \<open>Auxiliary notions for the properties\<close>

text \<open>The field names of an error object.\<close>

definition error_keys :: "(string \<times> string) list \<Rightarrow> string set" where
  "error_keys es = fst ` set es"

text \<open>A monetary value that is a finite, non-negative real.\<close>

definition finite_nonneg :: "num \<Rightarrow> bool" where
  "finite_nonneg v = (case v of Fin x \<Rightarrow> 0 \<le> x | _ \<Rightarrow> False)"

text \<open>
  Every monetary value a state shows: the base result, the projected value and the
  monthly income of each scenario, and every balance of the chart series.
\<close>

definition monetary_outputs :: "AppState \<Rightarrow> num list" where
  "monetary_outputs s =
     (case results s of None \<Rightarrow> [] | Some r \<Rightarrow> [projected_value r, monthly_income r])
   @ concat (map (\<lambda>scenario. projectedValue scenario
        # (case monthlyIncome scenario of None \<Rightarrow> [] | Some m \<Rightarrow> [m])) (scenarios s))
   @ concat (map (\<lambda>p. map snd (balances p)) (chartData s))"

section \<open>Monthly income in binary64\<close>

text \<open>
  How the monthly income varies with its argument depends on the rounding of each
  operation, which the exact-real operations above leave out. This section models lines
  53 to 63 over binary64: every arithmetic operation is the exact operation followed by
  rounding to the nearest double, ties to even, with gradual underflow to the subnormals
  and overflow to infinity.
\<close>

subsection \<open>Rounding to the nearest double\<close>

text \<open>\<open>lg2 x\<close> is the integer \<open>l\<close> with \<open>2 powi l \<le> x < 2 powi (l + 1)\<close>, for positive \<open>x\<close>.\<close>

function lg2 :: "real \<Rightarrow> int" where
  "lg2 x = (if x \<le> 0 then 0
            else if 2 \<le> x then lg2 (x / 2) + 1
            else if x < 1 then lg2 (2 * x) - 1
            else 0)"
  by pat_completeness auto
termination
proof (relation "measure (\<lambda>x. 2 * nat \<lceil>1 / x\<rceil> + nat \<lceil>x\<rceil>)", goal_cases)
  case 1
  show ?case by simp
next
  case (2 x)
  then have x: "2 \<le> x" by simp
  have a: "\<lceil>1 / x\<rceil> = 1"
    using x by (intro ceiling_unique) (simp_all add: field_simps)
  have b: "\<lceil>1 / (x / 2)\<rceil> = 1"
    using x by (intro ceiling_unique) (simp_all add: field_simps)
  have "x / 2 \<le> x - 1" using x by simp
  then have "\<lceil>x / 2\<rceil> \<le> \<lceil>x - 1\<rceil>" by (rule ceiling_mono)
  then have c: "\<lceil>x / 2\<rceil> < \<lceil>x\<rceil>" by simp
  have "0 < \<lceil>x\<rceil>" using x by simp
  then show ?case using a b c by simp
next
  case (3 x)
  then have x: "0 < x" "x < 1" by simp_all
  have u: "1 < 1 / x" using x by simp
  have c2: "\<lceil>2 * x\<rceil> \<le> 2"
    using x by (simp add: ceiling_le_iff)
  have c1: "\<lceil>x\<rceil> = 1"
    using x by (intro ceiling_unique) simp_all
  have h: "\<lceil>1 / (2 * x)\<rceil> \<le> \<lceil>1 / x\<rceil> - 1"
  proof (cases "2 \<le> 1 / x")
    case True
    then have "1 / (2 * x) \<le> 1 / x - 1" using x by (simp add: field_simps)
    then have "\<lceil>1 / (2 * x)\<rceil> \<le> \<lceil>1 / x - 1\<rceil>" by (rule ceiling_mono)
    then show ?thesis by simp
  next
    case False
    then have "1 / x < 2" by simp
    then have "\<lceil>1 / x\<rceil> = 2"
      using u by (intro ceiling_unique) simp_all
    moreover have "\<lceil>1 / (2 * x)\<rceil> = 1"
      using x \<open>1 / x < 2\<close> by (intro ceiling_unique) (simp_all add: field_simps)
    ultimately show ?thesis by simp
  qed
  have p: "0 < \<lceil>1 / x\<rceil>" "0 \<le> \<lceil>2 * x\<rceil>" "0 < \<lceil>1 / (2 * x)\<rceil>"
    using x u by (simp_all add: less_ceiling_iff)
  show ?case
    using h c1 c2 p by simp linarith
qed

declare lg2.simps [simp del]

text \<open>Rounding to the nearest integer, a tie going to the even neighbour.\<close>

definition round_even :: "real \<Rightarrow> int" where
  "round_even x =
     (let f = \<lfloor>x\<rfloor>; d = x - of_int f
      in if d < 1 / 2 then f
         else if 1 / 2 < d then f + 1
         else if even f then f else f + 1)"

text \<open>
  The doubles around a positive \<open>x\<close> are the multiples of \<open>2 powi e\<close> with
  \<open>e = lg2 x - 52\<close>: 53 significant bits. Below \<open>2 powi (- 1022)\<close> the spacing stays at
  \<open>2 powi (- 1074)\<close>, the subnormal range.
\<close>

definition ulp_exp :: "real \<Rightarrow> int" where
  "ulp_exp x = max (lg2 x - 52) (- 1074)"

text \<open>The rounded value of a positive real, before the check for overflow.\<close>

definition fl_mag :: "real \<Rightarrow> real" where
  "fl_mag x = of_int (round_even (x / 2 powi ulp_exp x)) * 2 powi ulp_exp x"

text \<open>
  The double a real rounds to. A magnitude that rounds to \<open>2 ^ 1024\<close> or more is beyond
  the largest double and gives an infinity; rounding is symmetric in the sign.
\<close>

definition fl :: "real \<Rightarrow> num" where
  "fl x =
     (if x = 0 then Fin 0
      else if 0 < x then (if 2 ^ 1024 \<le> fl_mag x then PInf else Fin (fl_mag x))
      else (if 2 ^ 1024 \<le> fl_mag (- x) then NInf else Fin (- fl_mag (- x))))"

text \<open>Rounding the result of an exact operation; the special values stay.\<close>

fun fl_num :: "num \<Rightarrow> num" where
  "fl_num (Fin x) = fl x"
| "fl_num v = v"

text \<open>The operator \<^verbatim>\<open><=\<close>: false whenever an operand is NaN.\<close>

fun js_le :: "num \<Rightarrow> num \<Rightarrow> bool" where
  "js_le NaN _ = False"
| "js_le _ NaN = False"
| "js_le (Fin x) (Fin y) = (x \<le> y)"
| "js_le NInf _ = True"
| "js_le _ PInf = True"
| "js_le PInf _ = False"
| "js_le (Fin _) NInf = False"

subsection \<open>The income function\<close>

text \<open>
  \<^verbatim>\<open>calculateMonthlyIncome(retirementBalance)\<close>, lines 53 to 63, in binary64. The
  literal \<^verbatim>\<open>0.04\<close> is the double nearest to \<open>4 / 100\<close>. \<^verbatim>\<open>Math.pow\<close> is
  implementation-approximated, so the value its two identical calls
  \<^verbatim>\<open>Math.pow(1 + monthlyRate, totalPayments)\<close> return is the parameter
  \<open>powResult\<close>; \<^verbatim>\<open>totalPayments\<close> is used in those calls only. The real value of the
  power is about \<open>2.2226\<close>.
\<close>

definition calculateMonthlyIncome64 :: "num \<Rightarrow> num \<Rightarrow> num" where
  "calculateMonthlyIncome64 powResult retirementBalance =
     (let annualRate = fl (4 / 100);
          monthlyRate = fl_num (js_div annualRate (Fin 12))
      in fl_num (js_div
           (fl_num (js_mul retirementBalance (fl_num (js_mul monthlyRate powResult))))
           (fl_num (js_sub powResult (Fin 1)))))"

section \<open>Properties\<close>

subsection \<open>Arithmetic of the number model\<close>

lemma Math_min_40_not_PInf: "Math_min v (Fin 40) \<noteq> PInf"
  by (cases v) auto

lemma js_add_NaN_right: "js_add a NaN = NaN"
  by (cases a) simp_all

lemma pow_fin_one: "pow_fin 1 y = Fin 1"
  by (simp add: pow_fin_def)

subsection \<open>Future value at a rate of zero\<close>

text \<open>
  With an annual rate of zero the monthly rate is zero, the growth factor is 1, and the
  contribution term is \<open>(C * 0) / 0\<close>: NaN, whatever the principal and the contribution.
\<close>

lemma calculateFutureValue_zero_rate:
  "calculateFutureValue cb mc (Fin 0) (Fin t) = NaN"
  by (cases mc)
     (simp_all add: calculateFutureValue_def Let_def js_sub_def pow_fin_one js_add_NaN_right)

text \<open>
  Claim C1: with an annual rate of exactly 0, \<^verbatim>\<open>futureValue(P, C, 0, t)\<close> should be
  \<open>P + C * 12 * t\<close>. The source has no zero-rate branch: at \<open>P = 50000\<close>, \<open>C = 1000\<close>,
  \<open>t = 30\<close> it returns NaN and not \<open>410000\<close>.
\<close>

theorem calculateFutureValue_rate_zero_NaN:
  "calculateFutureValue (Fin 50000) (Fin 1000) (Fin 0) (Fin 30) = NaN
   \<and> calculateFutureValue (Fin 50000) (Fin 1000) (Fin 0) (Fin 30)
       \<noteq> Fin (50000 + 1000 * 12 * 30)"
  by (simp add: calculateFutureValue_zero_rate)

text \<open>
  Claim C3: \<^verbatim>\<open>futureValue(P, 0, r, 0)\<close> should be \<open>P\<close> at every rate. At the rate 0 the
  contribution term is \<open>0 / 0\<close> and the source returns NaN: here for \<open>P = 50000\<close>.
\<close>

theorem calculateFutureValue_zero_years_rate_zero_NaN:
  "calculateFutureValue (Fin 50000) (Fin 0) (Fin 0) (Fin 0) = NaN
   \<and> calculateFutureValue (Fin 50000) (Fin 0) (Fin 0) (Fin 0) \<noteq> Fin 50000"
  by (simp add: calculateFutureValue_zero_rate)

subsection \<open>Validation\<close>

lemma validateInputs_keys:
  "map fst (validateInputs inp) =
     (if js_not (currentBalance inp) \<or> js_lt (currentBalance inp) (Fin 0)
      then [''currentBalance''] else [])
   @ (if js_lt (monthlyContribution inp) (Fin 0) then [''monthlyContribution''] else [])
   @ (if js_not (expectedReturn inp) \<or> js_lt (expectedReturn inp) (Fin (- 20))
          \<or> js_gt (expectedReturn inp) (Fin 50)
      then [''expectedReturn''] else [])
   @ (if js_not (yearsToRetirement inp) \<or> js_lt (yearsToRetirement inp) (Fin 1)
          \<or> js_gt (yearsToRetirement inp) (Fin 70)
      then [''yearsToRetirement''] else [])"
  by (simp add: validateInputs_def)

lemma validateInputs_Nil:
  "(validateInputs inp = []) =
     (\<not> (js_not (currentBalance inp) \<or> js_lt (currentBalance inp) (Fin 0))
      \<and> \<not> js_lt (monthlyContribution inp) (Fin 0)
      \<and> \<not> (js_not (expectedReturn inp) \<or> js_lt (expectedReturn inp) (Fin (- 20))
          \<or> js_gt (expectedReturn inp) (Fin 50))
      \<and> \<not> (js_not (yearsToRetirement inp) \<or> js_lt (yearsToRetirement inp) (Fin 1)
          \<or> js_gt (yearsToRetirement inp) (Fin 70)))"
  by (simp add: validateInputs_def)

lemma error_keys_map: "error_keys es = set (map fst es)"
  by (simp add: error_keys_def)

lemma expectedReturn_key:
  "(''expectedReturn'' \<notin> error_keys (validateInputs inp))
   = (\<exists>x. expectedReturn inp = Fin x \<and> - 20 \<le> x \<and> x \<le> 50 \<and> x \<noteq> 0)"
  unfolding error_keys_map validateInputs_keys
  by (cases "expectedReturn inp") (auto simp: js_gt_def)

text \<open>
  Claim C4: every expected return in the closed interval \<open>[-20, 50]\<close> is accepted. The
  value 0 lies in the interval, and the test \<^verbatim>\<open>!inputValues.expectedReturn\<close> of
  line 94 rejects it, under a message that asks for a value between -20% and 50%.
\<close>

theorem validateInputs_expectedReturn_zero_rejected:
  "(- 20 :: real) \<le> 0 \<and> (0 :: real) \<le> 50
   \<and> ''expectedReturn'' \<in> error_keys (validateInputs
        \<lparr>currentBalance = Fin 50000, monthlyContribution = Fin 1000,
         expectedReturn = Fin 0, yearsToRetirement = Fin 30\<rparr>)
   \<and> validateInputs
        \<lparr>currentBalance = Fin 50000, monthlyContribution = Fin 1000,
         expectedReturn = Fin 0, yearsToRetirement = Fin 30\<rparr>
       = [(''expectedReturn'', ''Expected return should be between -20% and 50%'')]"
  by (simp add: error_keys_map validateInputs_keys) (simp add: validateInputs_def js_gt_def)

text \<open>
  What the source does with the expected return, whatever the other fields are: no error
  entry exactly for a finite value in \<open>[-20, 50]\<close> other than 0; \<open>-20\<close> passes and
  \<open>-20.01\<close> does not.
\<close>

lemma expectedReturn_boundaries:
  "((''expectedReturn'' \<notin> error_keys (validateInputs inp))
      = (\<exists>x. expectedReturn inp = Fin x \<and> - 20 \<le> x \<and> x \<le> 50 \<and> x \<noteq> 0))
   \<and> ''expectedReturn'' \<notin> error_keys (validateInputs (inp\<lparr>expectedReturn := Fin (- 20)\<rparr>))
   \<and> ''expectedReturn'' \<in> error_keys (validateInputs (inp\<lparr>expectedReturn := Fin (- 2001 / 100)\<rparr>))"
  using expectedReturn_key[of inp]
    expectedReturn_key[of "inp\<lparr>expectedReturn := Fin (- 20)\<rparr>"]
    expectedReturn_key[of "inp\<lparr>expectedReturn := Fin (- 2001 / 100)\<rparr>"]
  by simp

lemma valid_years:
  "validateInputs inp = [] \<Longrightarrow> \<exists>y. yearsToRetirement inp = Fin y \<and> 1 \<le> y \<and> y \<le> 70"
  by (cases "yearsToRetirement inp") (auto simp: validateInputs_Nil js_gt_def)

lemma valid_rate:
  "validateInputs inp = [] \<Longrightarrow>
   \<exists>b. expectedReturn inp = Fin b \<and> - 20 \<le> b \<and> b \<le> 50 \<and> b \<noteq> 0"
  by (cases "expectedReturn inp") (auto simp: validateInputs_Nil js_gt_def)

text \<open>
  Claim C5: the four rules are checked independently. Each field has an error entry
  exactly when that field violates its own rule, whatever the other fields are, and no
  field has two entries: an input violating several rules gets one entry per violated
  field.
\<close>

theorem validateInputs_independent:
  "(''currentBalance'' \<in> error_keys (validateInputs inp))
      = (js_not (currentBalance inp) \<or> js_lt (currentBalance inp) (Fin 0))
   \<and> (''monthlyContribution'' \<in> error_keys (validateInputs inp))
      = js_lt (monthlyContribution inp) (Fin 0)
   \<and> (''expectedReturn'' \<in> error_keys (validateInputs inp))
      = (js_not (expectedReturn inp) \<or> js_lt (expectedReturn inp) (Fin (- 20))
          \<or> js_gt (expectedReturn inp) (Fin 50))
   \<and> (''yearsToRetirement'' \<in> error_keys (validateInputs inp))
      = (js_not (yearsToRetirement inp) \<or> js_lt (yearsToRetirement inp) (Fin 1)
          \<or> js_gt (yearsToRetirement inp) (Fin 70))
   \<and> distinct (map fst (validateInputs inp))"
  unfolding error_keys_map validateInputs_keys by simp

text \<open>
  The example of the claim: a current balance of \<open>-1\<close> together with 0 years to
  retirement gives both entries.
\<close>

theorem validateInputs_independent_witness:
  "''currentBalance'' \<in> error_keys (validateInputs
      \<lparr>currentBalance = Fin (- 1), monthlyContribution = Fin 1000,
       expectedReturn = Fin 7, yearsToRetirement = Fin 0\<rparr>)
   \<and> ''yearsToRetirement'' \<in> error_keys (validateInputs
      \<lparr>currentBalance = Fin (- 1), monthlyContribution = Fin 1000,
       expectedReturn = Fin 7, yearsToRetirement = Fin 0\<rparr>)"
  using validateInputs_independent[of "\<lparr>currentBalance = Fin (- 1), monthlyContribution = Fin 1000,
       expectedReturn = Fin 7, yearsToRetirement = Fin 0\<rparr>"]
  by simp

subsection \<open>The chart loop\<close>

lemma real_le_iff_le_nat_floor: "0 \<le> c \<Longrightarrow> (real k \<le> c) = (k \<le> nat \<lfloor>c\<rfloor>)"
proof -
  assume c: "0 \<le> c"
  have "(real k \<le> c) = (int k \<le> \<lfloor>c\<rfloor>)"
    by (simp add: le_floor_iff)
  also have "\<dots> = (k \<le> nat \<lfloor>c\<rfloor>)"
    using c by linarith
  finally show ?thesis .
qed

text \<open>From year \<open>k\<close> on, the loop yields the points of the years \<open>k, \<dots>, \<lfloor>c\<rfloor>\<close>.\<close>

lemma chart_loop_eq:
  "0 \<le> c \<Longrightarrow> chart_loop cb mc sd c k = map (chart_point cb mc sd) [k ..< Suc (nat \<lfloor>c\<rfloor>)]"
proof (induction cb mc sd c k rule: chart_loop.induct)
  case (1 cb mc sd c k)
  show ?case
  proof (cases "real k \<le> c")
    case True
    then have k: "k \<le> nat \<lfloor>c\<rfloor>"
      using "1.prems" by (simp add: real_le_iff_le_nat_floor)
    then have "[k ..< Suc (nat \<lfloor>c\<rfloor>)] = k # [Suc k ..< Suc (nat \<lfloor>c\<rfloor>)]"
      by (simp add: upt_conv_Cons)
    moreover have "chart_loop cb mc sd c k = chart_point cb mc sd k # chart_loop cb mc sd c (Suc k)"
      using True by (subst chart_loop.simps) simp
    ultimately show ?thesis
      using "1.IH"[OF True "1.prems"] by simp
  next
    case False
    then have "\<not> k \<le> nat \<lfloor>c\<rfloor>"
      using "1.prems" by (simp add: real_le_iff_le_nat_floor)
    then have "[k ..< Suc (nat \<lfloor>c\<rfloor>)] = []"
      by simp
    moreover have "chart_loop cb mc sd c k = []"
      using False by (subst chart_loop.simps) simp
    ultimately show ?thesis by simp
  qed
qed

subsection \<open>The state after \<^verbatim>\<open>calculateResults\<close>\<close>

lemma calculateResults_invalid:
  "validateInputs (inputs s) \<noteq> [] \<Longrightarrow>
   calculateResults s =
     s\<lparr>errors := validateInputs (inputs s), results := None, scenarios := [], chartData := []\<rparr>"
  by (simp add: calculateResults_def Let_def)

lemma results_valid:
  assumes "validateInputs (inputs s) = []"
  shows "results (calculateResults s) \<noteq> None" and "errors (calculateResults s) = []"
  using assms by (simp_all add: calculateResults_def Let_def)

lemma scenarios_valid:
  assumes "validateInputs (inputs s) = []"
  shows "scenarios (calculateResults s) =
     [\<lparr>name = ''Conservative'',
       rate = Math_max (js_sub (expectedReturn (inputs s)) (Fin 2)) (Fin 1),
       projectedValue = calculateFutureValue (currentBalance (inputs s))
          (monthlyContribution (inputs s))
          (Math_max (js_sub (expectedReturn (inputs s)) (Fin 2)) (Fin 1))
          (yearsToRetirement (inputs s)),
       color = ''#ef4444'',
       monthlyIncome = Some (calculateMonthlyIncome (calculateFutureValue
          (currentBalance (inputs s)) (monthlyContribution (inputs s))
          (Math_max (js_sub (expectedReturn (inputs s)) (Fin 2)) (Fin 1))
          (yearsToRetirement (inputs s))))\<rparr>,
      \<lparr>name = ''Base Case'',
       rate = expectedReturn (inputs s),
       projectedValue = calculateFutureValue (currentBalance (inputs s))
          (monthlyContribution (inputs s)) (expectedReturn (inputs s))
          (yearsToRetirement (inputs s)),
       color = ''#3b82f6'',
       monthlyIncome = Some (calculateMonthlyIncome (calculateFutureValue
          (currentBalance (inputs s)) (monthlyContribution (inputs s))
          (expectedReturn (inputs s)) (yearsToRetirement (inputs s))))\<rparr>,
      \<lparr>name = ''Optimistic'',
       rate = js_add (expectedReturn (inputs s)) (Fin 2),
       projectedValue = calculateFutureValue (currentBalance (inputs s))
          (monthlyContribution (inputs s)) (js_add (expectedReturn (inputs s)) (Fin 2))
          (yearsToRetirement (inputs s)),
       color = ''#10b981'',
       monthlyIncome = Some (calculateMonthlyIncome (calculateFutureValue
          (currentBalance (inputs s)) (monthlyContribution (inputs s))
          (js_add (expectedReturn (inputs s)) (Fin 2)) (yearsToRetirement (inputs s))))\<rparr>]"
  using assms by (simp add: calculateResults_def Let_def)

lemma chartData_valid:
  assumes "validateInputs (inputs s) = []" and "yearsToRetirement (inputs s) = Fin y"
  shows "chartData (calculateResults s) =
     map (chart_point (currentBalance (inputs s)) (monthlyContribution (inputs s))
            (scenarios (calculateResults s)))
       [0 ..< Suc (nat \<lfloor>min y 40\<rfloor>)]"
proof -
  have y: "1 \<le> y"
    using valid_years[OF assms(1)] assms(2) by simp
  have m: "Math_min (Fin y) (Fin 40) = Fin (min y 40)"
    by (simp add: min_def)
  have "chartData (calculateResults s) =
      chart_loop (currentBalance (inputs s)) (monthlyContribution (inputs s))
        (scenarios (calculateResults s)) (min y 40) 0"
    using assms m by (simp add: calculateResults_def Let_def del: Math_min.simps)
  then show ?thesis
    using y by (simp add: chart_loop_eq)
qed

subsection \<open>Validation gates the computation\<close>

text \<open>
  Claim C6: when validation returns a non-empty error object, the state after
  \<^verbatim>\<open>calculateResults\<close> is the state before it with the errors stored and the result,
  the scenarios and the chart data cleared; otherwise the errors are empty and the result
  is present, with three scenarios, each with its monthly income, and a non-empty series.
\<close>

theorem calculateResults_all_or_nothing:
  "(validateInputs (inputs s) \<noteq> [] \<longrightarrow>
      calculateResults s =
        s\<lparr>errors := validateInputs (inputs s), results := None, scenarios := [],
          chartData := []\<rparr>)
   \<and> (validateInputs (inputs s) = [] \<longrightarrow>
        errors (calculateResults s) = []
        \<and> results (calculateResults s) \<noteq> None
        \<and> length (scenarios (calculateResults s)) = 3
        \<and> list_all (\<lambda>scenario. monthlyIncome scenario \<noteq> None) (scenarios (calculateResults s))
        \<and> chartData (calculateResults s) \<noteq> [])"
proof (intro conjI impI)
  assume "validateInputs (inputs s) \<noteq> []"
  then show "calculateResults s =
        s\<lparr>errors := validateInputs (inputs s), results := None, scenarios := [],
          chartData := []\<rparr>"
    by (rule calculateResults_invalid)
next
  assume v: "validateInputs (inputs s) = []"
  show "errors (calculateResults s) = []" "results (calculateResults s) \<noteq> None"
    using v by (simp_all add: results_valid)
  show "length (scenarios (calculateResults s)) = 3"
    by (simp add: scenarios_valid[OF v])
  show "list_all (\<lambda>scenario. monthlyIncome scenario \<noteq> None) (scenarios (calculateResults s))"
    by (simp add: scenarios_valid[OF v])
  obtain y where "yearsToRetirement (inputs s) = Fin y"
    using valid_years[OF v] by blast
  then show "chartData (calculateResults s) \<noteq> []"
    by (simp add: chartData_valid[OF v] upt_conv_Cons)
qed

text \<open>
  An invalid input over a state that still shows earlier results, and the default input.
\<close>

theorem calculateResults_all_or_nothing_witness:
  "results (calculateResults
      \<lparr>inputs = \<lparr>currentBalance = Fin (- 1), monthlyContribution = Fin 1000,
                 expectedReturn = Fin 7, yearsToRetirement = Fin 0\<rparr>,
       results = Some \<lparr>projected_value = Fin 1, monthly_income = Fin 1\<rparr>,
       scenarios = [\<lparr>name = ''Base Case'', rate = Fin 7, projectedValue = Fin 1,
                     color = ''#3b82f6'', monthlyIncome = Some (Fin 1)\<rparr>],
       chartData = [\<lparr>year = 0, balances = [(''Base Case'', Fin 1)]\<rparr>],
       errors = []\<rparr>) = None
   \<and> scenarios (calculateResults
      \<lparr>inputs = \<lparr>currentBalance = Fin (- 1), monthlyContribution = Fin 1000,
                 expectedReturn = Fin 7, yearsToRetirement = Fin 0\<rparr>,
       results = Some \<lparr>projected_value = Fin 1, monthly_income = Fin 1\<rparr>,
       scenarios = [\<lparr>name = ''Base Case'', rate = Fin 7, projectedValue = Fin 1,
                     color = ''#3b82f6'', monthlyIncome = Some (Fin 1)\<rparr>],
       chartData = [\<lparr>year = 0, balances = [(''Base Case'', Fin 1)]\<rparr>],
       errors = []\<rparr>) = []
   \<and> chartData (calculateResults
      \<lparr>inputs = \<lparr>currentBalance = Fin (- 1), monthlyContribution = Fin 1000,
                 expectedReturn = Fin 7, yearsToRetirement = Fin 0\<rparr>,
       results = Some \<lparr>projected_value = Fin 1, monthly_income = Fin 1\<rparr>,
       scenarios = [\<lparr>name = ''Base Case'', rate = Fin 7, projectedValue = Fin 1,
                     color = ''#3b82f6'', monthlyIncome = Some (Fin 1)\<rparr>],
       chartData = [\<lparr>year = 0, balances = [(''Base Case'', Fin 1)]\<rparr>],
       errors = []\<rparr>) = []
   \<and> length (scenarios (calculateResults
      \<lparr>inputs = \<lparr>currentBalance = Fin 50000, monthlyContribution = Fin 1000,
                 expectedReturn = Fin 7, yearsToRetirement = Fin 30\<rparr>,
       results = None, scenarios = [], chartData = [], errors = []\<rparr>)) = 3
   \<and> chartData (calculateResults
      \<lparr>inputs = \<lparr>currentBalance = Fin 50000, monthlyContribution = Fin 1000,
                 expectedReturn = Fin 7, yearsToRetirement = Fin 30\<rparr>,
       results = None, scenarios = [], chartData = [], errors = []\<rparr>) \<noteq> []"
  using calculateResults_all_or_nothing[of
      "\<lparr>inputs = \<lparr>currentBalance = Fin (- 1), monthlyContribution = Fin 1000,
                 expectedReturn = Fin 7, yearsToRetirement = Fin 0\<rparr>,
       results = Some \<lparr>projected_value = Fin 1, monthly_income = Fin 1\<rparr>,
       scenarios = [\<lparr>name = ''Base Case'', rate = Fin 7, projectedValue = Fin 1,
                     color = ''#3b82f6'', monthlyIncome = Some (Fin 1)\<rparr>],
       chartData = [\<lparr>year = 0, balances = [(''Base Case'', Fin 1)]\<rparr>],
       errors = []\<rparr>"]
    calculateResults_all_or_nothing[of
      "\<lparr>inputs = \<lparr>currentBalance = Fin 50000, monthlyContribution = Fin 1000,
                 expectedReturn = Fin 7, yearsToRetirement = Fin 30\<rparr>,
       results = None, scenarios = [], chartData = [], errors = []\<rparr>"]
  by (simp add: validateInputs_def js_gt_def)

subsection \<open>Scenarios\<close>

text \<open>
  Claim C7: for a validated input with base rate \<open>b\<close> there are exactly three scenarios,
  in the order Conservative, Base Case, Optimistic, with the rates \<open>max (b - 2) 1\<close>,
  \<open>b\<close> and \<open>b + 2\<close>.
\<close>

theorem scenarios_order_and_rates:
  assumes "validateInputs (inputs s) = []"
  shows "\<exists>b. expectedReturn (inputs s) = Fin b
     \<and> map name (scenarios (calculateResults s)) = [''Conservative'', ''Base Case'', ''Optimistic'']
     \<and> map rate (scenarios (calculateResults s)) = [Fin (max (b - 2) 1), Fin b, Fin (b + 2)]"
proof -
  obtain b where b: "expectedReturn (inputs s) = Fin b"
    using valid_rate[OF assms] by blast
  have "Math_max (js_sub (Fin b) (Fin 2)) (Fin 1) = Fin (max (b - 2) 1)"
    by (simp add: js_sub_def max_def)
  then show ?thesis
    using b by (simp add: scenarios_valid[OF assms] del: Math_max.simps)
qed

text \<open>A base rate of 2: the conservative rate is the floor, 1, and not 0.\<close>

theorem scenarios_order_and_rates_witness:
  "map rate (scenarios (calculateResults
      \<lparr>inputs = \<lparr>currentBalance = Fin 50000, monthlyContribution = Fin 1000,
                 expectedReturn = Fin 2, yearsToRetirement = Fin 30\<rparr>,
       results = None, scenarios = [], chartData = [], errors = []\<rparr>))
   = [Fin 1, Fin 2, Fin 4]"
  using scenarios_order_and_rates[of
      "\<lparr>inputs = \<lparr>currentBalance = Fin 50000, monthlyContribution = Fin 1000,
                 expectedReturn = Fin 2, yearsToRetirement = Fin 30\<rparr>,
       results = None, scenarios = [], chartData = [], errors = []\<rparr>"]
  by (simp add: validateInputs_def js_gt_def)

subsection \<open>Chart series\<close>

text \<open>
  Claim C8: for a validated input with \<open>y\<close> years to retirement and base rate \<open>b\<close>, the
  series has one point for each year \<open>0, \<dots>, \<lfloor>min y 40\<rfloor>\<close>; the point of year \<open>k\<close>
  holds, for each scenario, \<^verbatim>\<open>Math.round\<close> of the future value at \<open>k\<close> elapsed years
  and at the scenario's rate, under the scenario's name; the projected value of each
  scenario is the future value at the full \<open>y\<close> years. The balances and the projected
  values are given twice: by scenario, and written out for the three rates.
\<close>

theorem chartData_series:
  assumes "validateInputs (inputs s) = []"
  shows "\<exists>y b. yearsToRetirement (inputs s) = Fin y \<and> expectedReturn (inputs s) = Fin b
     \<and> map year (chartData (calculateResults s)) = [0 ..< Suc (nat \<lfloor>min y 40\<rfloor>)]
     \<and> chartData (calculateResults s) =
         map (\<lambda>k. \<lparr>year = k,
                  balances = map (\<lambda>scenario.
                    (name scenario,
                     Math_round (calculateFutureValue (currentBalance (inputs s))
                       (monthlyContribution (inputs s)) (rate scenario) (Fin (real k)))))
                    (scenarios (calculateResults s))\<rparr>)
           [0 ..< Suc (nat \<lfloor>min y 40\<rfloor>)]
     \<and> chartData (calculateResults s) =
         map (\<lambda>k. \<lparr>year = k,
                  balances =
                    [(''Conservative'',
                      Math_round (calculateFutureValue (currentBalance (inputs s))
                        (monthlyContribution (inputs s)) (Fin (max (b - 2) 1)) (Fin (real k)))),
                     (''Base Case'',
                      Math_round (calculateFutureValue (currentBalance (inputs s))
                        (monthlyContribution (inputs s)) (Fin b) (Fin (real k)))),
                     (''Optimistic'',
                      Math_round (calculateFutureValue (currentBalance (inputs s))
                        (monthlyContribution (inputs s)) (Fin (b + 2)) (Fin (real k))))]\<rparr>)
           [0 ..< Suc (nat \<lfloor>min y 40\<rfloor>)]
     \<and> map projectedValue (scenarios (calculateResults s)) =
         map (\<lambda>scenario. calculateFutureValue (currentBalance (inputs s))
                (monthlyContribution (inputs s)) (rate scenario) (Fin y))
           (scenarios (calculateResults s))
     \<and> map projectedValue (scenarios (calculateResults s)) =
         [calculateFutureValue (currentBalance (inputs s)) (monthlyContribution (inputs s))
            (Fin (max (b - 2) 1)) (Fin y),
          calculateFutureValue (currentBalance (inputs s)) (monthlyContribution (inputs s))
            (Fin b) (Fin y),
          calculateFutureValue (currentBalance (inputs s)) (monthlyContribution (inputs s))
            (Fin (b + 2)) (Fin y)]"
proof -
  obtain y where y: "yearsToRetirement (inputs s) = Fin y"
    using valid_years[OF assms] by blast
  obtain b where b: "expectedReturn (inputs s) = Fin b"
    using valid_rate[OF assms] by blast
  have mx: "Math_max (js_sub (Fin b) (Fin 2)) (Fin 1) = Fin (max (b - 2) 1)"
    by (simp add: js_sub_def max_def)
  have c: "chartData (calculateResults s) =
         map (chart_point (currentBalance (inputs s)) (monthlyContribution (inputs s))
                (scenarios (calculateResults s)))
           [0 ..< Suc (nat \<lfloor>min y 40\<rfloor>)]"
    by (rule chartData_valid[OF assms y])
  have c1: "chartData (calculateResults s) =
         map (\<lambda>k. \<lparr>year = k,
                  balances = map (\<lambda>scenario.
                    (name scenario,
                     Math_round (calculateFutureValue (currentBalance (inputs s))
                       (monthlyContribution (inputs s)) (rate scenario) (Fin (real k)))))
                    (scenarios (calculateResults s))\<rparr>)
           [0 ..< Suc (nat \<lfloor>min y 40\<rfloor>)]"
    unfolding c by (rule map_cong) (simp_all add: chart_point_def)
  have c2: "chartData (calculateResults s) =
         map (\<lambda>k. \<lparr>year = k,
                  balances =
                    [(''Conservative'',
                      Math_round (calculateFutureValue (currentBalance (inputs s))
                        (monthlyContribution (inputs s)) (Fin (max (b - 2) 1)) (Fin (real k)))),
                     (''Base Case'',
                      Math_round (calculateFutureValue (currentBalance (inputs s))
                        (monthlyContribution (inputs s)) (Fin b) (Fin (real k)))),
                     (''Optimistic'',
                      Math_round (calculateFutureValue (currentBalance (inputs s))
                        (monthlyContribution (inputs s)) (Fin (b + 2)) (Fin (real k))))]\<rparr>)
           [0 ..< Suc (nat \<lfloor>min y 40\<rfloor>)]"
    unfolding c
    by (rule map_cong)
       (simp_all add: chart_point_def scenarios_valid[OF assms] b mx del: Math_max.simps)
  have "map year (chartData (calculateResults s)) = map (\<lambda>k. k) [0 ..< Suc (nat \<lfloor>min y 40\<rfloor>)]"
    unfolding c map_map by (rule map_cong) (simp_all add: chart_point_def)
  then have yr: "map year (chartData (calculateResults s)) = [0 ..< Suc (nat \<lfloor>min y 40\<rfloor>)]"
    by simp
  have p1: "map projectedValue (scenarios (calculateResults s)) =
         map (\<lambda>scenario. calculateFutureValue (currentBalance (inputs s))
                (monthlyContribution (inputs s)) (rate scenario) (Fin y))
           (scenarios (calculateResults s))"
    using y by (simp add: scenarios_valid[OF assms])
  have p2: "map projectedValue (scenarios (calculateResults s)) =
         [calculateFutureValue (currentBalance (inputs s)) (monthlyContribution (inputs s))
            (Fin (max (b - 2) 1)) (Fin y),
          calculateFutureValue (currentBalance (inputs s)) (monthlyContribution (inputs s))
            (Fin b) (Fin y),
          calculateFutureValue (currentBalance (inputs s)) (monthlyContribution (inputs s))
            (Fin (b + 2)) (Fin y)]"
    using y b mx by (simp add: scenarios_valid[OF assms] del: Math_max.simps)
  show ?thesis
    apply (rule exI[of _ y])
    apply (rule exI[of _ b])
    apply (intro conjI)
    apply (rule y, rule b, rule yr, rule c1, rule c2, rule p1, rule p2)
    done
qed

text \<open>
  With 70 years to retirement the series has exactly 41 points; its first point, for
  year 0, holds the rounded principal for each scenario.
\<close>

theorem chartData_series_witness:
  "length (chartData (calculateResults
      \<lparr>inputs = \<lparr>currentBalance = Fin 50000, monthlyContribution = Fin 1000,
                 expectedReturn = Fin 7, yearsToRetirement = Fin 70\<rparr>,
       results = None, scenarios = [], chartData = [], errors = []\<rparr>)) = 41
   \<and> hd (chartData (calculateResults
      \<lparr>inputs = \<lparr>currentBalance = Fin 50000, monthlyContribution = Fin 1000,
                 expectedReturn = Fin 7, yearsToRetirement = Fin 70\<rparr>,
       results = None, scenarios = [], chartData = [], errors = []\<rparr>))
     = \<lparr>year = 0, balances = [(''Conservative'', Fin 50000), (''Base Case'', Fin 50000),
                              (''Optimistic'', Fin 50000)]\<rparr>"
proof -
  let ?s = "\<lparr>inputs = \<lparr>currentBalance = Fin 50000, monthlyContribution = Fin 1000,
                 expectedReturn = Fin 7, yearsToRetirement = Fin 70\<rparr>,
       results = None, scenarios = [], chartData = [], errors = []\<rparr>"
  have v: "validateInputs (inputs ?s) = []"
    by (simp add: validateInputs_def js_gt_def)
  obtain y b where y: "yearsToRetirement (inputs ?s) = Fin y"
    and b: "expectedReturn (inputs ?s) = Fin b"
    and c: "chartData (calculateResults ?s) =
         map (\<lambda>k. \<lparr>year = k,
                  balances =
                    [(''Conservative'',
                      Math_round (calculateFutureValue (currentBalance (inputs ?s))
                        (monthlyContribution (inputs ?s)) (Fin (max (b - 2) 1)) (Fin (real k)))),
                     (''Base Case'',
                      Math_round (calculateFutureValue (currentBalance (inputs ?s))
                        (monthlyContribution (inputs ?s)) (Fin b) (Fin (real k)))),
                     (''Optimistic'',
                      Math_round (calculateFutureValue (currentBalance (inputs ?s))
                        (monthlyContribution (inputs ?s)) (Fin (b + 2)) (Fin (real k))))]\<rparr>)
           [0 ..< Suc (nat \<lfloor>min y 40\<rfloor>)]"
    using chartData_series[OF v] by blast
  from y have y70: "y = 70"
    by simp
  from b have b7: "b = 7"
    by simp
  have n: "Suc (nat \<lfloor>min y 40\<rfloor>) = 41"
    using y70 by simp
  have l: "length (chartData (calculateResults ?s)) = 41"
    unfolding c n by simp
  have u: "[0 ..< 41] = 0 # [1 ..< 41]"
    by (simp add: upt_conv_Cons)
  have h: "hd (chartData (calculateResults ?s))
     = \<lparr>year = 0, balances = [(''Conservative'', Fin 50000), (''Base Case'', Fin 50000),
                              (''Optimistic'', Fin 50000)]\<rparr>"
    unfolding c n u by (simp add: b7 calculateFutureValue_def Let_def js_sub_def)
  show ?thesis
    using l h by blast
qed

subsection \<open>The optimistic rate of zero\<close>

lemma calculateMonthlyIncome_NaN: "calculateMonthlyIncome NaN = NaN"
  by (simp add: calculateMonthlyIncome_def Let_def)

text \<open>
  Claim C10: for every input the validator accepts with an expected return of \<open>-2\<close>, the
  optimistic rate is exactly 0, it is the rate \<^verbatim>\<open>calculateFutureValue\<close> receives, and
  the projected value and the monthly income of the Optimistic scenario are NaN.
\<close>

theorem optimistic_rate_zero_NaN:
  assumes "validateInputs (inputs s) = []" and "expectedReturn (inputs s) = Fin (- 2)"
  shows "name (scenarios (calculateResults s) ! 2) = ''Optimistic''
     \<and> rate (scenarios (calculateResults s) ! 2) = Fin 0
     \<and> projectedValue (scenarios (calculateResults s) ! 2) =
         calculateFutureValue (currentBalance (inputs s)) (monthlyContribution (inputs s))
           (Fin 0) (yearsToRetirement (inputs s))
     \<and> projectedValue (scenarios (calculateResults s) ! 2) = NaN
     \<and> monthlyIncome (scenarios (calculateResults s) ! 2) = Some NaN"
proof -
  obtain y where y: "yearsToRetirement (inputs s) = Fin y"
    using valid_years[OF assms(1)] by blast
  show ?thesis
    using assms(2) y
    by (simp add: scenarios_valid[OF assms(1)] calculateFutureValue_zero_rate
        calculateMonthlyIncome_NaN)
qed

text \<open>Such an input exists: the default input with the expected return set to \<open>-2\<close>.\<close>

theorem optimistic_rate_zero_NaN_witness:
  "validateInputs \<lparr>currentBalance = Fin 50000, monthlyContribution = Fin 1000,
                 expectedReturn = Fin (- 2), yearsToRetirement = Fin 30\<rparr> = []
   \<and> rate (scenarios (calculateResults
      \<lparr>inputs = \<lparr>currentBalance = Fin 50000, monthlyContribution = Fin 1000,
                 expectedReturn = Fin (- 2), yearsToRetirement = Fin 30\<rparr>,
       results = None, scenarios = [], chartData = [], errors = []\<rparr>) ! 2) = Fin 0
   \<and> projectedValue (scenarios (calculateResults
      \<lparr>inputs = \<lparr>currentBalance = Fin 50000, monthlyContribution = Fin 1000,
                 expectedReturn = Fin (- 2), yearsToRetirement = Fin 30\<rparr>,
       results = None, scenarios = [], chartData = [], errors = []\<rparr>) ! 2) = NaN
   \<and> monthlyIncome (scenarios (calculateResults
      \<lparr>inputs = \<lparr>currentBalance = Fin 50000, monthlyContribution = Fin 1000,
                 expectedReturn = Fin (- 2), yearsToRetirement = Fin 30\<rparr>,
       results = None, scenarios = [], chartData = [], errors = []\<rparr>) ! 2) = Some NaN"
proof -
  let ?s = "\<lparr>inputs = \<lparr>currentBalance = Fin 50000, monthlyContribution = Fin 1000,
                 expectedReturn = Fin (- 2), yearsToRetirement = Fin 30\<rparr>,
       results = None, scenarios = [], chartData = [], errors = []\<rparr>"
  have v: "validateInputs (inputs ?s) = []"
    by (simp add: validateInputs_def js_gt_def)
  have e: "expectedReturn (inputs ?s) = Fin (- 2)"
    by simp
  note t = optimistic_rate_zero_NaN[OF v e]
  have "validateInputs \<lparr>currentBalance = Fin 50000, monthlyContribution = Fin 1000,
                 expectedReturn = Fin (- 2), yearsToRetirement = Fin 30\<rparr> = []"
    using v by simp
  moreover have "rate (scenarios (calculateResults ?s) ! 2) = Fin 0"
    using t by blast
  moreover have "projectedValue (scenarios (calculateResults ?s) ! 2) = NaN"
    using t by blast
  moreover have "monthlyIncome (scenarios (calculateResults ?s) ! 2) = Some NaN"
    using t by blast
  ultimately show ?thesis
    by blast
qed

subsection \<open>Monetary outputs\<close>

text \<open>
  Claim C2: every monetary output should be a finite, non-negative real for every input
  the validator accepts. For the accepted input with an expected return of \<open>-2\<close> the
  outputs are not all finite: the projected value of the Optimistic scenario is NaN.
\<close>

theorem monetary_outputs_not_all_finite:
  "validateInputs \<lparr>currentBalance = Fin 50000, monthlyContribution = Fin 1000,
                 expectedReturn = Fin (- 2), yearsToRetirement = Fin 30\<rparr> = []
   \<and> \<not> list_all finite_nonneg (monetary_outputs (calculateResults
      \<lparr>inputs = \<lparr>currentBalance = Fin 50000, monthlyContribution = Fin 1000,
                 expectedReturn = Fin (- 2), yearsToRetirement = Fin 30\<rparr>,
       results = None, scenarios = [], chartData = [], errors = []\<rparr>))"
proof -
  let ?i = "\<lparr>currentBalance = Fin 50000, monthlyContribution = Fin 1000,
                 expectedReturn = Fin (- 2), yearsToRetirement = Fin 30\<rparr>"
  let ?s = "\<lparr>inputs = ?i, results = None, scenarios = [], chartData = [], errors = []\<rparr>"
  have v: "validateInputs (inputs ?s) = []"
    by (simp add: validateInputs_def js_gt_def)
  have "NaN \<in> projectedValue ` set (scenarios (calculateResults ?s))"
    by (simp add: scenarios_valid[OF v] calculateFutureValue_zero_rate)
  then have n: "NaN \<in> set (monetary_outputs (calculateResults ?s))"
    by (auto simp: monetary_outputs_def)
  have "\<not> finite_nonneg NaN"
    by (simp add: finite_nonneg_def)
  with n have "\<not> list_all finite_nonneg (monetary_outputs (calculateResults ?s))"
    unfolding list_all_iff by blast
  then show ?thesis
    using v by simp
qed

section \<open>Properties of the income in binary64\<close>

subsection \<open>The binade of a positive real\<close>

lemma lg2_bounds:
  "0 < x \<Longrightarrow> 2 powi lg2 x \<le> x \<and> x < 2 powi (lg2 x + 1)"
proof (induction x rule: lg2.induct)
  case (1 x)
  consider "2 \<le> x" | "x < 1" | "1 \<le> x" "x < 2"
    by linarith
  then show ?case
  proof cases
    case 1
    then have l: "lg2 x = lg2 (x / 2) + 1"
      by (subst lg2.simps) simp
    have "2 powi lg2 (x / 2) \<le> x / 2 \<and> x / 2 < 2 powi (lg2 (x / 2) + 1)"
      using "1.IH"(1) 1 by simp
    then show ?thesis
      unfolding l by (simp add: power_int_add field_simps)
  next
    case 2
    then have l: "lg2 x = lg2 (2 * x) - 1"
      using "1.prems" by (subst lg2.simps) simp
    have "2 powi lg2 (2 * x) \<le> 2 * x \<and> 2 * x < 2 powi (lg2 (2 * x) + 1)"
      using "1.IH"(2) 2 "1.prems" by simp
    then show ?thesis
      unfolding l by (simp add: power_int_add power_int_diff field_simps)
  next
    case 3
    then have l: "lg2 x = 0"
      by (subst lg2.simps) simp
    show ?thesis
      unfolding l using 3 by simp
  qed
qed

lemma lg2_less: "0 < x \<Longrightarrow> x < 2 powi k \<Longrightarrow> lg2 x < k"
proof (rule ccontr)
  assume x: "0 < x" "x < 2 powi k" and "\<not> lg2 x < k"
  then have "k \<le> lg2 x" by simp
  then have "(2::real) powi k \<le> 2 powi lg2 x"
    by (intro power_int_increasing) simp_all
  then show False
    using lg2_bounds[OF x(1)] x(2) by linarith
qed

lemma lg2_ge: "0 < x \<Longrightarrow> 2 powi k \<le> x \<Longrightarrow> k \<le> lg2 x"
proof (rule ccontr)
  assume x: "0 < x" "2 powi k \<le> x" and "\<not> k \<le> lg2 x"
  then have "lg2 x + 1 \<le> k" by simp
  then have "(2::real) powi (lg2 x + 1) \<le> 2 powi k"
    by (intro power_int_increasing) simp_all
  then show False
    using lg2_bounds[OF x(1)] x(2) by linarith
qed

lemma lg2_unique: "2 powi k \<le> x \<Longrightarrow> x < 2 powi (k + 1) \<Longrightarrow> lg2 x = k"
proof -
  assume a: "2 powi k \<le> x" "x < 2 powi (k + 1)"
  have "(0::real) < 2 powi k" by simp
  then have x: "0 < x" using a(1) by linarith
  have "lg2 x < k + 1" using x a(2) by (rule lg2_less)
  moreover have "k \<le> lg2 x" using x a(1) by (rule lg2_ge)
  ultimately show ?thesis by simp
qed

lemma lg2_mono: "0 < x \<Longrightarrow> x \<le> y \<Longrightarrow> lg2 x \<le> lg2 y"
proof -
  assume x: "0 < x" "x \<le> y"
  have "2 powi lg2 x \<le> y"
    using lg2_bounds[OF x(1)] x(2) by linarith
  then show ?thesis
    using x by (intro lg2_ge) simp_all
qed

lemma lg2_pow2: "lg2 (2 powi k) = k"
proof (rule lg2_unique)
  show "(2::real) powi k \<le> 2 powi k" by simp
  show "(2::real) powi k < 2 powi (k + 1)"
    by (intro power_int_strict_increasing) simp_all
qed

subsection \<open>Rounding to an integer\<close>

lemma round_even_cases: "round_even x = \<lfloor>x\<rfloor> \<or> round_even x = \<lfloor>x\<rfloor> + 1"
  by (simp add: round_even_def Let_def)

lemma round_even_of_int: "round_even (of_int n) = n"
  by (simp add: round_even_def Let_def)

lemma round_even_mono: "x \<le> y \<Longrightarrow> round_even x \<le> round_even y"
proof -
  assume xy: "x \<le> y"
  then have f: "\<lfloor>x\<rfloor> \<le> \<lfloor>y\<rfloor>" by (rule floor_mono)
  show ?thesis
  proof (cases "\<lfloor>x\<rfloor> = \<lfloor>y\<rfloor>")
    case True
    then have "x - of_int \<lfloor>x\<rfloor> \<le> y - of_int \<lfloor>y\<rfloor>"
      using xy by simp
    then show ?thesis
      using True by (auto simp: round_even_def Let_def)
  next
    case False
    then have "\<lfloor>x\<rfloor> + 1 \<le> \<lfloor>y\<rfloor>" using f by simp
    moreover have "round_even x \<le> \<lfloor>x\<rfloor> + 1"
      using round_even_cases[of x] by auto
    moreover have "\<lfloor>y\<rfloor> \<le> round_even y"
      using round_even_cases[of y] by auto
    ultimately show ?thesis by linarith
  qed
qed

lemma round_even_half: "0 \<le> x \<Longrightarrow> x \<le> 1 / 2 \<Longrightarrow> round_even x = 0"
proof -
  assume x: "0 \<le> x" "x \<le> 1 / 2"
  then have "\<lfloor>x\<rfloor> = 0" by (intro floor_unique) simp_all
  then show ?thesis
    using x by (simp add: round_even_def Let_def)
qed

lemma round_even_error: "\<bar>of_int (round_even x) - x\<bar> \<le> 1 / 2"
proof -
  define d where "d = x - of_int \<lfloor>x\<rfloor>"
  have d: "0 \<le> d" "d < 1"
    unfolding d_def by linarith+
  have "real_of_int (round_even x) - x =
      (if d < 1 / 2 then - d else if 1 / 2 < d then 1 - d
       else if even \<lfloor>x\<rfloor> then - d else 1 - d)"
    by (simp add: round_even_def Let_def d_def)
  then show ?thesis
    using d by (simp add: abs_if split: if_splits)
qed

subsection \<open>Rounding to a double\<close>

lemma fl_mag_nonneg: "0 < x \<Longrightarrow> 0 \<le> fl_mag x"
proof -
  assume "0 < x"
  then have "0 \<le> x / 2 powi ulp_exp x" by simp
  then have "round_even 0 \<le> round_even (x / 2 powi ulp_exp x)"
    by (rule round_even_mono)
  then have "0 \<le> round_even (x / 2 powi ulp_exp x)"
    using round_even_of_int[of 0] by simp
  then show ?thesis
    by (simp add: fl_mag_def)
qed

lemma ulp_exp_mono: "0 < x \<Longrightarrow> x \<le> y \<Longrightarrow> ulp_exp x \<le> ulp_exp y"
  using lg2_mono[of x y] by (simp add: ulp_exp_def)

text \<open>The rounded magnitude stays within the binade of \<open>x\<close>, ends included.\<close>

lemma fl_mag_upper: "0 < x \<Longrightarrow> fl_mag x \<le> 2 powi (ulp_exp x + 53)"
proof -
  assume x: "0 < x"
  let ?e = "ulp_exp x"
  have "lg2 x + 1 \<le> ?e + 53" by (simp add: ulp_exp_def)
  then have "(2::real) powi (lg2 x + 1) \<le> 2 powi (?e + 53)"
    by (intro power_int_increasing) simp_all
  then have "x \<le> 2 powi (?e + 53)"
    using lg2_bounds[OF x] by linarith
  then have "x / 2 powi ?e \<le> 2 powi (?e + 53) / 2 powi ?e"
    by (simp add: divide_right_mono)
  also have "\<dots> = of_int (2 ^ 53)"
    by (simp add: power_int_add)
  finally have "round_even (x / 2 powi ?e) \<le> round_even (of_int (2 ^ 53))"
    by (rule round_even_mono)
  then have "round_even (x / 2 powi ?e) \<le> 2 ^ 53"
    by (simp only: round_even_of_int)
  then have "real_of_int (round_even (x / 2 powi ?e)) \<le> 2 ^ 53"
    by (metis of_int_le_iff of_int_numeral of_int_power)
  then have "fl_mag x \<le> 2 ^ 53 * 2 powi ?e"
    unfolding fl_mag_def by (intro mult_right_mono) simp_all
  then show ?thesis
    by (simp add: power_int_add mult.commute)
qed

lemma fl_mag_lower: "0 < x \<Longrightarrow> - 1074 < ulp_exp x \<Longrightarrow> 2 powi (ulp_exp x + 52) \<le> fl_mag x"
proof -
  assume x: "0 < x" and n: "- 1074 < ulp_exp x"
  let ?e = "ulp_exp x"
  have e: "?e + 52 = lg2 x" using n by (simp add: ulp_exp_def max_def split: if_splits)
  have "2 powi (?e + 52) \<le> x"
    unfolding e using lg2_bounds[OF x] by simp
  then have "2 powi (?e + 52) / 2 powi ?e \<le> x / 2 powi ?e"
    by (simp add: divide_right_mono)
  moreover have "2 powi (?e + 52) / 2 powi ?e = real_of_int (2 ^ 52)"
    by (simp add: power_int_add)
  ultimately have "real_of_int (2 ^ 52) \<le> x / 2 powi ?e"
    by simp
  then have "round_even (of_int (2 ^ 52)) \<le> round_even (x / 2 powi ?e)"
    by (rule round_even_mono)
  then have "2 ^ 52 \<le> round_even (x / 2 powi ?e)"
    by (simp only: round_even_of_int)
  then have "2 ^ 52 \<le> real_of_int (round_even (x / 2 powi ?e))"
    by (metis of_int_le_iff of_int_numeral of_int_power)
  then have "2 ^ 52 * 2 powi ?e \<le> fl_mag x"
    unfolding fl_mag_def by (intro mult_right_mono) simp_all
  then show ?thesis
    by (simp add: power_int_add mult.commute)
qed

lemma fl_mag_mono: "0 < x \<Longrightarrow> x \<le> y \<Longrightarrow> fl_mag x \<le> fl_mag y"
proof -
  assume x: "0 < x" and xy: "x \<le> y"
  then have y: "0 < y" by simp
  have e: "ulp_exp x \<le> ulp_exp y" using x xy by (rule ulp_exp_mono)
  show ?thesis
  proof (cases "ulp_exp x = ulp_exp y")
    case True
    have "x / 2 powi ulp_exp y \<le> y / 2 powi ulp_exp y"
      using xy by (simp add: divide_right_mono)
    then have "round_even (x / 2 powi ulp_exp y) \<le> round_even (y / 2 powi ulp_exp y)"
      by (rule round_even_mono)
    then show ?thesis
      unfolding fl_mag_def True by (intro mult_right_mono) simp_all
  next
    case False
    then have lt: "ulp_exp x + 1 \<le> ulp_exp y" using e by simp
    have "- 1074 \<le> ulp_exp x" by (simp add: ulp_exp_def)
    then have n: "- 1074 < ulp_exp y" using lt by simp
    have "fl_mag x \<le> 2 powi (ulp_exp x + 53)"
      using x by (rule fl_mag_upper)
    also have "\<dots> \<le> 2 powi (ulp_exp y + 52)"
      using lt by (intro power_int_increasing) simp_all
    also have "\<dots> \<le> fl_mag y"
      using y n by (rule fl_mag_lower)
    finally show ?thesis .
  qed
qed

lemma fl_mag_pow2: "- 1074 \<le> k \<Longrightarrow> fl_mag (2 powi k) = 2 powi k"
proof -
  assume k: "- 1074 \<le> k"
  define e where "e = ulp_exp (2 powi k)"
  have e: "e \<le> k"
    using k by (simp add: e_def ulp_exp_def lg2_pow2)
  have "(2::real) powi k / 2 powi e = 2 powi (k - e)"
    by (simp add: power_int_diff)
  also have "\<dots> = 2 ^ nat (k - e)"
    using e by (simp add: power_int_def)
  also have "\<dots> = real_of_int (2 ^ nat (k - e))"
    by simp
  finally have "round_even (2 powi k / 2 powi e) = 2 ^ nat (k - e)"
    by (simp only: round_even_of_int)
  then have "fl_mag (2 powi k) = real_of_int (2 ^ nat (k - e)) * 2 powi e"
    by (simp add: fl_mag_def e_def)
  also have "\<dots> = 2 powi (k - e) * 2 powi e"
    using e by (simp add: power_int_def)
  also have "\<dots> = 2 powi k"
    by (simp add: power_int_diff)
  finally show ?thesis .
qed

text \<open>Powers of two within the range are doubles.\<close>

lemma fl_pow2: "- 1074 \<le> k \<Longrightarrow> k < 1024 \<Longrightarrow> fl (2 powi k) = Fin (2 powi k)"
proof -
  assume k: "- 1074 \<le> k" "k < 1024"
  have "(2::real) powi k < 2 powi 1024"
    using k(2) by (intro power_int_strict_increasing) simp_all
  then have "\<not> (2::real) ^ 1024 \<le> 2 powi k"
    by simp
  then show ?thesis
    using k(1) by (simp add: fl_def fl_mag_pow2)
qed

lemma fl_zero: "fl 0 = Fin 0"
  by (simp add: fl_def)

text \<open>Rounding is monotone.\<close>

lemma fl_mono: "x \<le> y \<Longrightarrow> js_le (fl x) (fl y)"
proof -
  assume xy: "x \<le> y"
  consider "0 < x" | "x = 0" "y = 0" | "x = 0" "0 < y" | "x < 0" "0 \<le> y" | "x < 0" "y < 0"
    using xy by linarith
  then show ?thesis
  proof cases
    case 1
    then have "fl_mag x \<le> fl_mag y" using xy by (rule fl_mag_mono)
    then show ?thesis
      using 1 xy by (simp add: fl_def)
  next
    case 2
    then show ?thesis by (simp add: fl_def)
  next
    case 3
    then show ?thesis
      using fl_mag_nonneg[of y] by (simp add: fl_def)
  next
    case 4
    have "0 \<le> fl_mag (- x)" using 4 by (intro fl_mag_nonneg) simp
    moreover have "0 < y \<Longrightarrow> 0 \<le> fl_mag y" by (rule fl_mag_nonneg)
    ultimately show ?thesis
      using 4 by (cases "y = 0") (simp_all add: fl_def)
  next
    case 5
    then have "fl_mag (- y) \<le> fl_mag (- x)"
      using xy by (intro fl_mag_mono) simp_all
    then show ?thesis
      using 5 by (simp add: fl_def)
  qed
qed

lemma fl_between:
  assumes "fl lo = Fin lo" and "fl hi = Fin hi" and "lo \<le> x" and "x \<le> hi"
  shows "\<exists>r. fl x = Fin r \<and> lo \<le> r \<and> r \<le> hi"
proof -
  have "js_le (Fin lo) (fl x)" "js_le (fl x) (Fin hi)"
    using fl_mono[OF assms(3)] fl_mono[OF assms(4)] assms(1,2) by simp_all
  then show ?thesis
    by (cases "fl x") simp_all
qed

text \<open>Up to half of the smallest positive double, a value rounds to zero.\<close>

lemma fl_tiny: "0 \<le> x \<Longrightarrow> x \<le> 2 powi (- 1075) \<Longrightarrow> fl x = Fin 0"
proof (cases "x = 0")
  case True
  then show ?thesis by (simp add: fl_zero)
next
  case False
  assume "0 \<le> x" and t: "x \<le> 2 powi (- 1075)"
  then have x: "0 < x" using False by simp
  have "(2::real) powi (- 1075) < 2 powi (- 1074)"
    by (intro power_int_strict_increasing) simp_all
  then have "lg2 x < - 1074"
    using x t by (intro lg2_less) simp_all
  then have e: "ulp_exp x = - 1074"
    by (simp add: ulp_exp_def)
  have "(2::real) powi (- 1075) = 2 powi (- 1074) / 2"
    using power_int_add_1[of "2::real" "- 1075"] by simp
  then have "x / 2 powi (- 1074) \<le> 1 / 2"
    using t by (simp add: field_simps)
  then have "round_even (x / 2 powi (- 1074)) = 0"
    using x by (intro round_even_half) simp_all
  then have "fl_mag x = 0"
    by (simp add: fl_mag_def e)
  then show ?thesis
    using x by (simp add: fl_def)
qed

text \<open>
  The rounding error: relative \<open>1 / 2 ^ 53\<close> in the normal range, absolute \<open>2 powi (- 1075)\<close> in the
  subnormal range.
\<close>

lemma fl_mag_error: "0 < x \<Longrightarrow> \<bar>fl_mag x - x\<bar> \<le> x / 2 ^ 53 + 2 powi (- 1075)"
proof -
  assume x: "0 < x"
  define e where "e = ulp_exp x"
  have p: "(0::real) < 2 powi e" by simp
  have "fl_mag x - x = (real_of_int (round_even (x / 2 powi e)) - x / 2 powi e) * 2 powi e"
    by (simp add: fl_mag_def e_def field_simps)
  then have "\<bar>fl_mag x - x\<bar> = \<bar>real_of_int (round_even (x / 2 powi e)) - x / 2 powi e\<bar> * 2 powi e"
    by (simp add: abs_mult)
  also have "\<dots> \<le> 1 / 2 * 2 powi e"
    using round_even_error[of "x / 2 powi e"] by (intro mult_right_mono) simp_all
  finally have b: "\<bar>fl_mag x - x\<bar> \<le> 2 powi e / 2"
    by simp
  show ?thesis
  proof (cases "e = - 1074")
    case True
    have "(2::real) powi (- 1075) = 2 powi (- 1074) / 2"
      using power_int_add_1[of "2::real" "- 1075"] by simp
    then show ?thesis
      using b x unfolding True by simp
  next
    case False
    then have "e = lg2 x - 52"
      by (simp add: e_def ulp_exp_def max_def split: if_splits)
    then have "(2::real) powi e = 2 powi lg2 x / 2 ^ 52"
      by (simp add: power_int_diff)
    also have "\<dots> \<le> x / 2 ^ 52"
      using lg2_bounds[OF x] by (simp add: divide_right_mono)
    finally have "2 powi e / 2 \<le> x / 2 ^ 53"
      by simp
    then show ?thesis
      using b by simp
  qed
qed

lemma fl_error:
  assumes "0 \<le> x" and "x \<le> 2 powi 1023"
  shows "\<exists>r. fl x = Fin r \<and> 0 \<le> r \<and> \<bar>r - x\<bar> \<le> x / 2 ^ 53 + 2 powi (- 1075)"
proof (cases "x = 0")
  case True
  then show ?thesis by (simp add: fl_zero)
next
  case False
  then have x: "0 < x" using assms(1) by simp
  obtain r where r: "fl x = Fin r" "0 \<le> r"
    using fl_between[OF fl_zero fl_pow2[of 1023] assms] by auto
  then have "r = fl_mag x"
    using x by (simp add: fl_def split: if_splits)
  then show ?thesis
    using r fl_mag_error[OF x] by simp
qed

subsection \<open>The annuity terms\<close>

lemma fl_dyadic:
  "fl (1 / 32) = Fin (1 / 32)" "fl (1 / 16) = Fin (1 / 16)"
  "fl (1 / 512) = Fin (1 / 512)" "fl (1 / 128) = Fin (1 / 128)"
  "fl (1 / 256) = Fin (1 / 256)" "fl 1 = Fin 1" "fl 2 = Fin 2"
  using fl_pow2[of "- 5"] fl_pow2[of "- 4"] fl_pow2[of "- 9"] fl_pow2[of "- 7"]
    fl_pow2[of "- 8"] fl_pow2[of 0] fl_pow2[of 1]
  by (simp_all add: power_int_minus_divide)

lemma income64_form:
  assumes "2 \<le> q" and "q \<le> 3"
  shows "\<exists>A B. 1 / 256 \<le> A \<and> A \<le> 1 / 32 \<and> 1 \<le> B \<and> B \<le> 2
     \<and> (\<forall>v. calculateMonthlyIncome64 (Fin q) v
            = fl_num (js_div (fl_num (js_mul v (Fin A))) (Fin B)))"
proof -
  obtain a0 where a0: "fl (4 / 100) = Fin a0" "1 / 32 \<le> a0" "a0 \<le> 1 / 16"
    using fl_between[OF fl_dyadic(1) fl_dyadic(2), of "4 / 100"] by auto
  have a0': "fl (1 / 25) = Fin a0"
    using a0(1) by simp
  have "1 / 512 \<le> a0 / 12" "a0 / 12 \<le> 1 / 128"
    using a0(2,3) by simp_all
  then obtain m where m: "fl (a0 / 12) = Fin m" "1 / 512 \<le> m" "m \<le> 1 / 128"
    using fl_between[OF fl_dyadic(3) fl_dyadic(4), of "a0 / 12"] by auto
  have "1 / 512 * 2 \<le> m * q"
    using m(2) assms(1) by (intro mult_mono) simp_all
  moreover have "m * q \<le> 1 / 128 * 3"
    using m(2,3) assms by (intro mult_mono) simp_all
  ultimately have "1 / 256 \<le> m * q" "m * q \<le> 1 / 32"
    by simp_all
  then obtain A where A: "fl (m * q) = Fin A" "1 / 256 \<le> A" "A \<le> 1 / 32"
    using fl_between[OF fl_dyadic(5) fl_dyadic(1), of "m * q"] by auto
  have "1 \<le> q - 1" "q - 1 \<le> 2"
    using assms by simp_all
  then obtain B where B: "fl (q - 1) = Fin B" "1 \<le> B" "B \<le> 2"
    using fl_between[OF fl_dyadic(6) fl_dyadic(7), of "q - 1"] by auto
  have "\<forall>v. calculateMonthlyIncome64 (Fin q) v
            = fl_num (js_div (fl_num (js_mul v (Fin A))) (Fin B))"
    by (simp add: calculateMonthlyIncome64_def Let_def a0' m(1) A(1) B(1) js_sub_def)
  then show ?thesis
    using A(2,3) B(2,3) by blast
qed

lemma divide_ge_one_le: "0 \<le> a \<Longrightarrow> 1 \<le> B \<Longrightarrow> a / B \<le> (a::real)"
proof -
  assume a: "0 \<le> a" "1 \<le> B"
  then have "a / B \<le> a / 1"
    by (intro divide_left_mono) simp_all
  then show ?thesis by simp
qed

lemma fl_not_NaN: "fl x \<noteq> NaN"
  by (simp add: fl_def)

lemma div_pos_mono:
  assumes "js_le u v" and "0 < B"
  shows "js_le (fl_num (js_div u (Fin B))) (fl_num (js_div v (Fin B)))"
proof (cases u)
  case (Fin x)
  note u = this
  show ?thesis
  proof (cases v)
    case (Fin y)
    then have "x / B \<le> y / B"
      using assms u by (simp add: divide_right_mono)
    then show ?thesis
      using assms(2) u Fin by (simp add: fl_mono)
  next
    case PInf
    have "js_le (fl (x / B)) PInf"
      using fl_not_NaN[of "x / B"] by (cases "fl (x / B)") simp_all
    then show ?thesis
      using assms(2) u PInf by (simp add: signed_inf_def)
  qed (use assms u in simp_all)
next
  case NInf
  show ?thesis
  proof (cases v)
    case (Fin y)
    have "js_le NInf (fl (y / B))"
      using fl_not_NaN[of "y / B"] by (cases "fl (y / B)") simp_all
    then show ?thesis
      using assms(2) NInf Fin by (simp add: signed_inf_def)
  qed (use assms NInf in \<open>simp_all add: signed_inf_def\<close>)
next
  case PInf
  then show ?thesis
    using assms by (cases v) (simp_all add: signed_inf_def)
next
  case NaN
  then show ?thesis using assms by simp
qed

subsection \<open>The income in its argument\<close>

text \<open>The income of a zero balance is zero.\<close>

lemma income64_zero:
  assumes "2 \<le> q" and "q \<le> 3"
  shows "calculateMonthlyIncome64 (Fin q) (Fin 0) = Fin 0"
proof -
  obtain A B where A: "1 / 256 \<le> A" "A \<le> 1 / 32" and B: "1 \<le> B" "B \<le> 2"
    and f: "\<And>v. calculateMonthlyIncome64 (Fin q) v
            = fl_num (js_div (fl_num (js_mul v (Fin A))) (Fin B))"
    using income64_form[OF assms] by blast
  show ?thesis
    using B(1) by (simp add: f fl_zero)
qed

text \<open>The income does not decrease when the balance grows.\<close>

lemma income64_mono:
  assumes "2 \<le> q" and "q \<le> 3" and "a \<le> b"
  shows "js_le (calculateMonthlyIncome64 (Fin q) (Fin a))
               (calculateMonthlyIncome64 (Fin q) (Fin b))"
proof -
  obtain A B where A: "1 / 256 \<le> A" "A \<le> 1 / 32" and B: "1 \<le> B" "B \<le> 2"
    and f: "\<And>v. calculateMonthlyIncome64 (Fin q) v
            = fl_num (js_div (fl_num (js_mul v (Fin A))) (Fin B))"
    using income64_form[OF assms(1,2)] by blast
  have "a * A \<le> b * A"
    using assms(3) A(1) by (intro mult_right_mono) simp_all
  then have "js_le (fl (a * A)) (fl (b * A))"
    by (rule fl_mono)
  then show ?thesis
    using B(1) by (simp add: f div_pos_mono)
qed

text \<open>
  The income is linear up to the two roundings: the constant is the quotient of the two
  rounded annuity terms.
\<close>

lemma income64_near_linear:
  assumes "2 \<le> q" and "q \<le> 3"
  shows "\<exists>k. 0 < k \<and> (\<forall>pv. 0 \<le> pv \<and> pv \<le> 2 ^ 1000 \<longrightarrow>
            (\<exists>w. calculateMonthlyIncome64 (Fin q) (Fin pv) = Fin w
               \<and> \<bar>w - k * pv\<bar> \<le> k * pv / 2 ^ 51 + 2 powi (- 1073)))"
proof -
  obtain A B where A: "1 / 256 \<le> A" "A \<le> 1 / 32" and B: "1 \<le> B" "B \<le> 2"
    and f: "\<And>v. calculateMonthlyIncome64 (Fin q) v
            = fl_num (js_div (fl_num (js_mul v (Fin A))) (Fin B))"
    using income64_form[OF assms] by blast
  have lin: "\<exists>w. calculateMonthlyIncome64 (Fin q) (Fin pv) = Fin w
               \<and> \<bar>w - A / B * pv\<bar> \<le> A / B * pv / 2 ^ 51 + 2 powi (- 1073)"
    if pv: "0 \<le> pv" "pv \<le> 2 ^ 1000" for pv
  proof -
    have p1023: "(2::real) powi 1023 = 2 ^ 1023"
      by simp
    have "pv * A \<le> 2 ^ 1000 * 1"
      using pv A by (intro mult_mono) simp_all
    then have xa: "0 \<le> pv * A" "pv * A \<le> 2 powi 1023"
      using pv(1) A(1) unfolding p1023 by simp_all
    obtain u where u: "fl (pv * A) = Fin u" "0 \<le> u"
      "\<bar>u - pv * A\<bar> \<le> pv * A / 2 ^ 53 + 2 powi (- 1075)"
      using fl_error[OF xa] by blast
    define t :: real where "t = 2 powi (- 1075)"
    define y where "y = pv * A / B"
    have t: "0 \<le> t" "t \<le> 1"
      unfolding t_def using power_int_increasing[of "- 1075" 0 "2::real"] by simp_all
    have t4: "2 powi (- 1073) = 4 * t"
      unfolding t_def using power_int_add[of "2::real" "- 1075" 2] by simp
    have y: "0 \<le> y"
      unfolding y_def using xa(1) B(1) by simp
    have h1: "\<bar>u - pv * A\<bar> \<le> pv * A / 2 ^ 53 + t"
      using u(3) by (simp add: t_def)
    have "u \<le> pv * A + (pv * A / 2 ^ 53 + t)"
      using h1 by linarith
    also have "\<dots> \<le> 2 ^ 1000 + (2 ^ 1000 + 1)"
    proof (intro add_mono)
      show "pv * A \<le> 2 ^ 1000"
        using \<open>pv * A \<le> 2 ^ 1000 * 1\<close> by simp
      have "pv * A / 2 ^ 53 \<le> pv * A"
        using xa(1) by (simp add: field_simps)
      then show "pv * A / 2 ^ 53 \<le> 2 ^ 1000"
        using \<open>pv * A \<le> 2 ^ 1000 * 1\<close> by linarith
      show "t \<le> 1" by (rule t(2))
    qed
    also have "\<dots> \<le> (2::real) ^ 1023"
      by simp
    finally have u1023: "u \<le> 2 ^ 1023" .
    have "u / B \<le> u"
      using u(2) B(1) by (rule divide_ge_one_le)
    then have ub: "0 \<le> u / B" "u / B \<le> 2 powi 1023"
      using u(2) B(1) u1023 unfolding p1023 by simp_all
    obtain w where w: "fl (u / B) = Fin w"
      "\<bar>w - u / B\<bar> \<le> u / B / 2 ^ 53 + 2 powi (- 1075)"
      using fl_error[OF ub] by blast
    have h2: "\<bar>w - u / B\<bar> \<le> u / B / 2 ^ 53 + t"
      using w(2) by (simp add: t_def)
    have c: "calculateMonthlyIncome64 (Fin q) (Fin pv) = Fin w"
      using B(1) by (simp add: f u(1) w(1))
    have "\<bar>u / B - y\<bar> = \<bar>u - pv * A\<bar> / B"
      unfolding y_def using B(1) by (simp add: diff_divide_distrib[symmetric])
    also have "\<dots> \<le> (pv * A / 2 ^ 53 + t) / B"
      using h1 B(1) by (simp add: divide_right_mono)
    also have "\<dots> = y / 2 ^ 53 + t / B"
      unfolding y_def by (simp add: add_divide_distrib)
    also have "\<dots> \<le> y / 2 ^ 53 + t"
      using divide_ge_one_le[OF t(1) B(1)] by simp
    finally have a: "\<bar>u / B - y\<bar> \<le> y / 2 ^ 53 + t" .
    have y53: "y / 2 ^ 53 / 2 ^ 53 \<le> y / 2 ^ 53" "t / 2 ^ 53 \<le> t"
      using y t(1) by (simp_all add: field_simps)
    have "u / B \<le> y + y / 2 ^ 53 + t"
      using a by linarith
    then have "u / B / 2 ^ 53 \<le> (y + y / 2 ^ 53 + t) / 2 ^ 53"
      by (simp add: divide_right_mono)
    also have "\<dots> = y / 2 ^ 53 + y / 2 ^ 53 / 2 ^ 53 + t / 2 ^ 53"
      by (simp add: add_divide_distrib)
    also have "\<dots> \<le> y / 2 ^ 53 + y / 2 ^ 53 + t"
      using y53 by linarith
    finally have b: "u / B / 2 ^ 53 \<le> y / 2 ^ 53 + y / 2 ^ 53 + t" .
    have "\<bar>w - y\<bar> \<le> \<bar>w - u / B\<bar> + \<bar>u / B - y\<bar>"
      by linarith
    also have "\<dots> \<le> (y / 2 ^ 53 + y / 2 ^ 53 + t + t) + (y / 2 ^ 53 + t)"
      using h2 b a by linarith
    also have "\<dots> = 3 * (y / 2 ^ 53) + 3 * t"
      by simp
    also have "\<dots> \<le> y / 2 ^ 51 + 4 * t"
      using y t(1) by (simp add: field_simps)
    finally have "\<bar>w - y\<bar> \<le> y / 2 ^ 51 + 2 powi (- 1073)"
      unfolding t4 .
    moreover have "A / B * pv = y"
      by (simp add: y_def)
    ultimately show ?thesis
      using c by simp
  qed
  have k: "0 < A / B"
    using A(1) B(1) by simp
  show ?thesis
    using lin k by blast
qed


text \<open>
  The smallest positive double, \<open>2 powi (- 1074)\<close>, times the annuity term is below half
  of itself and rounds to zero.
\<close>

lemma income64_tiny:
  assumes "2 \<le> q" and "q \<le> 3"
  shows "calculateMonthlyIncome64 (Fin q) (Fin (2 powi (- 1074))) = Fin 0"
proof -
  obtain A B where A: "1 / 256 \<le> A" "A \<le> 1 / 32" and B: "1 \<le> B" "B \<le> 2"
    and f: "\<And>v. calculateMonthlyIncome64 (Fin q) v
            = fl_num (js_div (fl_num (js_mul v (Fin A))) (Fin B))"
    using income64_form[OF assms] by blast
  define s :: real where "s = 2 powi (- 1074)"
  have s: "0 < s"
    by (simp add: s_def)
  have h: "2 powi (- 1075) = s / 2"
    unfolding s_def using power_int_add_1[of "2::real" "- 1075"] by simp
  have "s * A \<le> s * (1 / 2)"
    using s A(2) by (intro mult_left_mono) simp_all
  then have "s * A \<le> 2 powi (- 1075)"
    unfolding h by simp
  moreover have "0 \<le> s * A"
    using s A(1) by simp
  ultimately have "fl (s * A) = Fin 0"
    by (intro fl_tiny)
  then have "fl_num (js_div (fl_num (js_mul (Fin s) (Fin A))) (Fin B)) = Fin 0"
    using B(1) by (simp add: fl_zero)
  then show ?thesis
    unfolding f s_def .
qed

text \<open>
  Claim C9, as stated: the income is strictly increasing, and \<open>k * PV\<close> for a constant
  \<open>k > 0\<close>, at every \<open>PV\<close>. With the correctly rounded value of the power,
  \<open>2502404964665589 / 2 ^ 50\<close>, the positive balance \<open>2 powi (- 1074)\<close> has the income
  of the balance 0, which is 0.
\<close>

theorem calculateMonthlyIncome64_not_strict:
  "(0::real) < 2 powi (- 1074)
   \<and> calculateMonthlyIncome64 (Fin (2502404964665589 / 2 ^ 50)) (Fin 0) = Fin 0
   \<and> calculateMonthlyIncome64 (Fin (2502404964665589 / 2 ^ 50)) (Fin (2 powi (- 1074))) = Fin 0"
proof -
  have q: "(2::real) \<le> 2502404964665589 / 2 ^ 50" "(2502404964665589::real) / 2 ^ 50 \<le> 3"
    by simp_all
  have "(0::real) < 2 powi (- 1074)"
    by simp
  moreover have "calculateMonthlyIncome64 (Fin (2502404964665589 / 2 ^ 50)) (Fin 0) = Fin 0"
    using q by (rule income64_zero)
  moreover have "calculateMonthlyIncome64 (Fin (2502404964665589 / 2 ^ 50))
      (Fin (2 powi (- 1074))) = Fin 0"
    using q by (rule income64_tiny)
  ultimately show ?thesis
    by blast
qed

text \<open>
  Claim C9, amended: whenever \<^verbatim>\<open>Math.pow\<close> returns a value between 2 and 3, the
  income of 0 is 0; the income is non-decreasing over all finite balances; and it is
  linear up to rounding: there is a constant \<open>k > 0\<close> with
  \<open>\<bar>income PV - k * PV\<bar> \<le> k * PV / 2 ^ 51 + 2 powi (- 1073)\<close> for every balance from 0 to
  \<open>2 ^ 1000\<close>.
\<close>

theorem calculateMonthlyIncome64_monotone:
  assumes "2 \<le> q" and "q \<le> 3"
  shows "calculateMonthlyIncome64 (Fin q) (Fin 0) = Fin 0
     \<and> (\<forall>a b. a \<le> b \<longrightarrow>
            js_le (calculateMonthlyIncome64 (Fin q) (Fin a))
                  (calculateMonthlyIncome64 (Fin q) (Fin b)))
     \<and> (\<exists>k. 0 < k \<and> (\<forall>pv. 0 \<le> pv \<and> pv \<le> 2 ^ 1000 \<longrightarrow>
            (\<exists>w. calculateMonthlyIncome64 (Fin q) (Fin pv) = Fin w
               \<and> \<bar>w - k * pv\<bar> \<le> k * pv / 2 ^ 51 + 2 powi (- 1073))))"
  using income64_zero[OF assms] income64_mono[OF assms] income64_near_linear[OF assms]
  by simp

text \<open>
  The correctly rounded power satisfies the hypotheses; the incomes of one and of two
  million are in order.
\<close>

theorem calculateMonthlyIncome64_monotone_witness:
  "(2::real) \<le> 2502404964665589 / 2 ^ 50 \<and> (2502404964665589::real) / 2 ^ 50 \<le> 3
   \<and> calculateMonthlyIncome64 (Fin (2502404964665589 / 2 ^ 50)) (Fin 0) = Fin 0
   \<and> js_le (calculateMonthlyIncome64 (Fin (2502404964665589 / 2 ^ 50)) (Fin 1000000))
            (calculateMonthlyIncome64 (Fin (2502404964665589 / 2 ^ 50)) (Fin 2000000))"
proof -
  have q: "(2::real) \<le> 2502404964665589 / 2 ^ 50" "(2502404964665589::real) / 2 ^ 50 \<le> 3"
    by simp_all
  note t = calculateMonthlyIncome64_monotone[OF q]
  have "calculateMonthlyIncome64 (Fin (2502404964665589 / 2 ^ 50)) (Fin 0) = Fin 0"
    using t by blast
  moreover have "js_le (calculateMonthlyIncome64 (Fin (2502404964665589 / 2 ^ 50)) (Fin 1000000))
            (calculateMonthlyIncome64 (Fin (2502404964665589 / 2 ^ 50)) (Fin 2000000))"
  proof -
    have "\<forall>a b. a \<le> b \<longrightarrow>
            js_le (calculateMonthlyIncome64 (Fin (2502404964665589 / 2 ^ 50)) (Fin a))
                  (calculateMonthlyIncome64 (Fin (2502404964665589 / 2 ^ 50)) (Fin b))"
      using t by blast
    moreover have "(1000000::real) \<le> 2000000"
      by simp
    ultimately show ?thesis
      by blast
  qed
  ultimately show ?thesis
    using q by blast
qed

end
